theory Spec2Isabelle
  imports Complex_Main "HOL-Library.Monad_Syntax" "HOL-Library.AList"
begin

section \<open>The tip distribution component (src/TipDistribution.tsx)\<close>

text \<open>
  The component keeps its inputs in React state and derives two things from them:
  \<^item> \<open>calculateTips\<close>, the handler of the button, which validates the inputs and sends
    the eligible employees to the backend;
  \<^item> the live distribution table, computed on every render: weekly totals, points,
    proportions, amounts rounded to 5, and the restaurant's row that takes the rest.

  Numbers. A JavaScript number is modelled by an exact rational (\<^typ>\<open>rat\<close>): the
  rounding error of doubles and the two infinities are outside this model. A value that
  is not a finite number is \<open>None\<close> of \<^typ>\<open>rat option\<close>: \<open>parseFloat\<close> gives it (NaN)
  for the empty text, and a division gives it for a zero divisor.

  Text of a number input. \<open>totalTips\<close> and the restaurant percentage are written only by
  the \<open>onChange\<close> of an \<open><input type="number">\<close>, whose value is the empty string
  (also when what was typed is not a number) or a decimal numeral.

  Dates. An ISO date string \<open>YYYY-MM-DD\<close> is modelled by its day number, so that the day
  after \<open>d\<close> is \<open>d + 1\<close>; the shift by the time zone that \<open>toISOString\<close> can make is
  not modelled.
\<close>

subsection \<open>State\<close>

type_synonym date = int

datatype input_text = EmptyText | NumberText rat

text \<open>\<open>parseFloat\<close> on the value of a number input: NaN for the empty string.\<close>

definition parseFloat :: "input_text \<Rightarrow> rat option" where
  "parseFloat t = (case t of EmptyText \<Rightarrow> None | NumberText r \<Rightarrow> Some r)"

text \<open>\<open>interface Employee { id; name; hours; type? }\<close>\<close>

record Employee =
  emp_id :: string
  emp_name :: string
  emp_hours :: rat
  emp_type :: "string option"

text \<open>
  A JavaScript object used as a dictionary is an association list with distinct keys;
  \<open>AList.update\<close> replaces the value of a key or adds the key, as the spread
  \<open>{...prev, [k]: v}\<close> does. Only sums and lookups read it, so the order of its keys
  plays no role.
  \<open>hoursGrid[employeeId][dateString]\<close> is the hours of that day.
\<close>

type_synonym per_day = "(date \<times> rat) list"

record state =
  totalTips :: input_text
  employees :: "Employee list"
  hoursGrid :: "(string \<times> per_day) list"
  weekStart :: date
  restaurantShare :: rat

text \<open>The \<open>useState\<close> defaults; \<open>monday\<close> is the Monday of the week of the first render.\<close>

definition initialState :: "date \<Rightarrow> state" where
  "initialState monday =
     \<lparr>totalTips = EmptyText,
      employees = [\<lparr>emp_id = ''1'', emp_name = '''', emp_hours = 0, emp_type = None\<rparr>],
      hoursGrid = [],
      weekStart = monday,
      restaurantShare = 2 / 100\<rparr>"

subsection \<open>Number helpers\<close>

text \<open>\<open>v || 0\<close> on a finite number: 0 is the only falsy one.\<close>

definition or_zero :: "rat \<Rightarrow> rat" where
  "or_zero v = (if v = 0 then 0 else v)"

text \<open>\<open>parseFloat(s) || 0\<close>: NaN is falsy as well.\<close>

definition parseFloat_or_zero :: "input_text \<Rightarrow> rat" where
  "parseFloat_or_zero t = (case parseFloat t of None \<Rightarrow> 0 | Some v \<Rightarrow> or_zero v)"

text \<open>\<open>a / b\<close>: with a zero divisor the quotient is NaN or an infinity.\<close>

definition js_divide :: "rat \<Rightarrow> rat \<Rightarrow> rat option" where
  "js_divide a b = (if b = 0 then None else Some (a / b))"

text \<open>
  \<open>Math.round\<close>: the nearest integer, and of two equally near ones the one closer to
  plus infinity.
\<close>

definition Math_round :: "rat \<Rightarrow> int" where
  "Math_round x = \<lfloor>x + 1 / 2\<rfloor>"

text \<open>\<open>String.prototype.toLowerCase\<close>, on ASCII letters.\<close>

definition lower_char :: "char \<Rightarrow> char" where
  "lower_char c =
     (let k = (of_char c :: nat) in if 65 \<le> k \<and> k \<le> 90 then char_of (k + 32) else c)"

definition toLowerCase :: "string \<Rightarrow> string" where
  "toLowerCase s = map lower_char s"

subsection \<open>The week and the grid\<close>

text \<open>\<open>getWeekDates\<close>: the loop pushes the start day plus \<open>i\<close> for \<open>i = 0, ..., 6\<close>.\<close>

definition getWeekDates :: "date \<Rightarrow> date list" where
  "getWeekDates startIso = map (\<lambda>i. startIso + int i) [0..<7]"

text \<open>\<open>(hoursGrid[id] && hoursGrid[id][d]) || 0\<close>: a missing employee or day counts 0.\<close>

definition hoursAt :: "(string \<times> per_day) list \<Rightarrow> string \<Rightarrow> date \<Rightarrow> rat" where
  "hoursAt grid i d =
     (case map_of grid i of
        None \<Rightarrow> 0
      | Some perDay \<Rightarrow> (case map_of perDay d of None \<Rightarrow> 0 | Some v \<Rightarrow> or_zero v))"

text \<open>\<open>updateHours\<close>: stores the hours of one day of one employee.\<close>

definition updateHours :: "string \<Rightarrow> date \<Rightarrow> rat \<Rightarrow> state \<Rightarrow> state" where
  "updateHours employeeId dateStr v st =
     st\<lparr>hoursGrid :=
          AList.update employeeId
            (AList.update dateStr v
               (case map_of (hoursGrid st) employeeId of None \<Rightarrow> [] | Some perDay \<Rightarrow> perDay))
            (hoursGrid st)\<rparr>"

text \<open>
  The effect that runs when \<open>employees\<close> or \<open>weekStart\<close> change: every employee gets an
  entry, every day of the selected week that has no number gets 0, and the entries of
  removed employees are deleted. Days of other weeks stay in the grid.
\<close>

definition ensureDay :: "date \<Rightarrow> per_day \<Rightarrow> per_day" where
  "ensureDay d perDay = (case map_of perDay d of None \<Rightarrow> AList.update d 0 perDay | Some v \<Rightarrow> perDay)"

definition ensureEmployee :: "date list \<Rightarrow> Employee \<Rightarrow> (string \<times> per_day) list \<Rightarrow> (string \<times> per_day) list" where
  "ensureEmployee dates emp next =
     (let perDay = (case map_of next (emp_id emp) of None \<Rightarrow> [] | Some p \<Rightarrow> p)
      in AList.update (emp_id emp) (fold ensureDay dates perDay) next)"

definition ensureGrid :: "state \<Rightarrow> state" where
  "ensureGrid st =
     (let dates = getWeekDates (weekStart st);
          next = fold (ensureEmployee dates) (employees st) (hoursGrid st)
      in st\<lparr>hoursGrid := filter (\<lambda>(k, perDay). k \<in> set (map emp_id (employees st))) next\<rparr>)"

definition setWeekStart :: "date \<Rightarrow> state \<Rightarrow> state" where
  "setWeekStart d st = ensureGrid (st\<lparr>weekStart := d\<rparr>)"

text \<open>\<open>updateEmployee(id, field, value)\<close> for the two fields the inputs write.\<close>

definition updateEmployeeName :: "string \<Rightarrow> string \<Rightarrow> state \<Rightarrow> state" where
  "updateEmployeeName i v st =
     st\<lparr>employees := map (\<lambda>e. if emp_id e = i then e\<lparr>emp_name := v\<rparr> else e) (employees st)\<rparr>"

definition updateEmployeeType :: "string \<Rightarrow> string \<Rightarrow> state \<Rightarrow> state" where
  "updateEmployeeType i v st =
     st\<lparr>employees := map (\<lambda>e. if emp_id e = i then e\<lparr>emp_type := Some v\<rparr> else e) (employees st)\<rparr>"

text \<open>
  The \<open>onChange\<close> of the restaurant percentage:
  \<open>const v = parseFloat(e.target.value); if (!isNaN(v)) setRestaurantShare(Math.max(0, v) / 100)\<close>.
\<close>

definition onChangeRestaurantShare :: "input_text \<Rightarrow> state \<Rightarrow> state" where
  "onChangeRestaurantShare text st =
     (case parseFloat text of
        None \<Rightarrow> st
      | Some v \<Rightarrow> st\<lparr>restaurantShare := max 0 v / 100\<rparr>)"

subsection \<open>calculateTips\<close>

text \<open>The entries of \<open>employeesWithTotals\<close>: \<open>{ id, name, totalHours, type }\<close>.\<close>

record emp_with_total =
  w_id :: string
  w_name :: string
  totalHours :: rat
  w_type :: "string option"

text \<open>
  \<open>Object.values(perDay).reduce((s, v) => s + (v || 0), 0)\<close>: the sum of every value
  stored for the employee.
\<close>

definition employeesWithTotals :: "state \<Rightarrow> emp_with_total list" where
  "employeesWithTotals st =
     map (\<lambda>e.
        let perDay = (case map_of (hoursGrid st) (emp_id e) of None \<Rightarrow> [] | Some p \<Rightarrow> p);
            total = foldl (\<lambda>s v. s + or_zero v) 0 (map snd perDay)
        in \<lparr>w_id = emp_id e, w_name = emp_name e, totalHours = total, w_type = emp_type e\<rparr>)
       (employees st)"

definition validEmployees :: "state \<Rightarrow> emp_with_total list" where
  "validEmployees st = filter (\<lambda>e. w_name e \<noteq> [] \<and> totalHours e > 0) (employeesWithTotals st)"

text \<open>The body of the POST to \<open>/calculate\<close>.\<close>

record payload_employee =
  p_name :: string
  p_hours :: rat
  p_role :: "string option"

record calculate_request =
  total_tips :: "rat option"
  req_employees :: "payload_employee list"

text \<open>
  \<open>calculateTips\<close> up to the request it sends: \<open>Inl\<close> is the message given to \<open>setError\<close>
  before the early return, \<open>Inr\<close> the request. The comparison \<open>parseFloat(totalTips) <= 0\<close>
  is false on NaN.
\<close>

definition calculateTips :: "state \<Rightarrow> string + calculate_request" where
  "calculateTips st =
     (if totalTips st = EmptyText \<or> (case parseFloat (totalTips st) of None \<Rightarrow> False | Some v \<Rightarrow> v \<le> 0)
      then Inl ''Please enter a valid total tips amount''
      else if length (validEmployees st) = 0
      then Inl ''Please add at least one employee with hours worked''
      else Inr \<lparr>total_tips = parseFloat (totalTips st),
                req_employees =
                  map (\<lambda>e. \<lparr>p_name = w_name e, p_hours = totalHours e, p_role = w_type e\<rparr>)
                    (validEmployees st)\<rparr>)"

subsection \<open>The live distribution\<close>

text \<open>The entries of \<open>employeeTotals\<close>, and of \<open>totalsWithPoints\<close>, which adds two fields.\<close>

record emp_total =
  t_id :: string
  t_name :: string
  total :: rat
  t_type :: string

record emp_points = emp_total +
  mult :: rat
  points :: rat

definition employeeTotals :: "state \<Rightarrow> emp_total list" where
  "employeeTotals st =
     map (\<lambda>emp.
        \<lparr>t_id = emp_id emp,
         t_name = (if emp_name emp = [] then ''Unnamed'' else emp_name emp),
         total = foldl (\<lambda>s d. s + hoursAt (hoursGrid st) (emp_id emp) d) 0
                   (getWeekDates (weekStart st)),
         t_type = (case emp_type emp of
                     None \<Rightarrow> ''waiter''
                   | Some t \<Rightarrow> if t = [] then ''waiter'' else t)\<rparr>)
       (employees st)"

definition getMultiplier :: "string \<Rightarrow> rat" where
  "getMultiplier t =
     (let k = toLowerCase t in
      if k = ''experienced waiter'' then 1
      else if k = ''waiter'' then 8 / 10
      else if k = ''kitchen'' then 5 / 10
      else if k = ''new'' then 6 / 10
      else 8 / 10)"

definition totalsWithPoints :: "state \<Rightarrow> emp_points list" where
  "totalsWithPoints st =
     map (\<lambda>emp.
        let m = getMultiplier (t_type emp);
            p = total emp * m
        in \<lparr>t_id = t_id emp, t_name = t_name emp, total = total emp, t_type = t_type emp,
            mult = m, points = p\<rparr>)
       (employeeTotals st)"

definition totalEmployeePoints :: "state \<Rightarrow> rat" where
  "totalEmployeePoints st = foldl (\<lambda>s e. s + points e) 0 (totalsWithPoints st)"

definition totalTipsValue :: "state \<Rightarrow> rat" where
  "totalTipsValue st = parseFloat_or_zero (totalTips st)"

text \<open>The rows of the table; \<open>scaledProp\<close> is the field \<open>prop\<close> of the source.\<close>

record row =
  emp :: emp_points
  rawPropPoints :: rat
  scaledProp :: rat
  weeklyRaw :: rat
  weeklyRounded :: rat

text \<open>
  One element of \<open>employeeRows\<close>. The division by \<open>totalEmployeePoints\<close> is behind the
  guard \<open>totalEmployeePoints > 0\<close>.
\<close>

definition employeeRow :: "rat \<Rightarrow> rat \<Rightarrow> rat \<Rightarrow> emp_points \<Rightarrow> row option" where
  "employeeRow totalPoints share tips e =
     do {
       raw \<leftarrow> (if totalPoints > 0 then js_divide (points e) totalPoints else Some 0);
       let p = raw * (1 - share);
       let amount = p * tips;
       q \<leftarrow> js_divide amount 5;
       Some \<lparr>emp = e, rawPropPoints = raw, scaledProp = p, weeklyRaw = amount,
             weeklyRounded = of_int (Math_round q) * 5\<rparr>
     }"

definition employeeRows :: "state \<Rightarrow> row list option" where
  "employeeRows st =
     those (map (employeeRow (totalEmployeePoints st) (restaurantShare st) (totalTipsValue st))
              (totalsWithPoints st))"

definition restaurantRow :: "rat \<Rightarrow> rat \<Rightarrow> rat \<Rightarrow> row" where
  "restaurantRow share tips restaurantAmount =
     \<lparr>emp = \<lparr>t_id = ''restaurant'', t_name = ''Restaurant'', total = 0, t_type = ''restaurant'',
             mult = 0, points = 0\<rparr>,
      rawPropPoints = 0, scaledProp = share, weeklyRaw = share * tips,
      weeklyRounded = restaurantAmount\<rparr>"

definition finalRows :: "state \<Rightarrow> row list option" where
  "finalRows st =
     do {
       rows \<leftarrow> employeeRows st;
       let sumEmployeesRounded = foldl (\<lambda>s r. s + weeklyRounded r) 0 rows;
       let restaurantAmount = totalTipsValue st - sumEmployeesRounded;
       Some (rows @ [restaurantRow (restaurantShare st) (totalTipsValue st) restaurantAmount])
     }"


subsection \<open>The fraction shown for a proportion\<close>








subsection \<open>Rendering the table\<close>



subsection \<open>Rounding as the specification words it\<close>

text \<open>
  Round half away from zero: the nearest integer, and of two equally near ones the one
  of larger magnitude.
\<close>

definition round_half_away_from_zero :: "rat \<Rightarrow> int" where
  "round_half_away_from_zero x = (if x < 0 then - \<lfloor>- x + 1 / 2\<rfloor> else \<lfloor>x + 1 / 2\<rfloor>)"

subsection \<open>Example states\<close>

text \<open>
  A pool of 500, no restaurant share, two waiters: A with 8 hours on each of five days
  of the week, B with 6.
\<close>

definition scenario :: state where
  "scenario =
     \<lparr>totalTips = NumberText 500,
      employees =
        [\<lparr>emp_id = ''1'', emp_name = ''A'', emp_hours = 0, emp_type = Some ''waiter''\<rparr>,
         \<lparr>emp_id = ''2'', emp_name = ''B'', emp_hours = 0, emp_type = Some ''waiter''\<rparr>],
      hoursGrid =
        [(''1'', [(0, 8), (1, 8), (2, 8), (3, 8), (4, 8), (5, 0), (6, 0)]),
         (''2'', [(0, 6), (1, 6), (2, 6), (3, 6), (4, 6), (5, 0), (6, 0)])],
      weekStart = 0,
      restaurantShare = 0\<rparr>"

text \<open>
  A pool of 5 with a restaurant share of one half and a single waiter: the raw amount
  2.5 lies halfway between 0 and 5.
\<close>

definition tie_state :: state where
  "tie_state =
     \<lparr>totalTips = NumberText 5,
      employees = [\<lparr>emp_id = ''1'', emp_name = ''A'', emp_hours = 0, emp_type = Some ''waiter''\<rparr>],
      hoursGrid = [(''1'', [(0, 8)])],
      weekStart = 0,
      restaurantShare = 1 / 2\<rparr>"

text \<open>
  Hours entered under a week that is no longer selected. The user names the first
  employee, enters 8 hours on day 0, moves the week start to day 7 and enters a pool of
  100; the effect runs after each change of \<open>employees\<close> and \<open>weekStart\<close>.
\<close>

definition other_week_state :: state where
  "other_week_state =
     (setWeekStart 7
       (updateHours ''1'' 0 8
         (ensureGrid (updateEmployeeName ''1'' ''A'' (ensureGrid (initialState 0))))))
     \<lparr>totalTips := NumberText 100\<rparr>"

text \<open>
  A pool of 100, no restaurant share, and three employees: A with 8 hours, one without
  a name with 4 hours, and B with no hours.
\<close>

definition mixed_state :: state where
  "mixed_state =
     \<lparr>totalTips = NumberText 100,
      employees =
        [\<lparr>emp_id = ''1'', emp_name = ''A'', emp_hours = 0, emp_type = Some ''waiter''\<rparr>,
         \<lparr>emp_id = ''2'', emp_name = '''', emp_hours = 0, emp_type = Some ''waiter''\<rparr>,
         \<lparr>emp_id = ''3'', emp_name = ''B'', emp_hours = 0, emp_type = Some ''waiter''\<rparr>],
      hoursGrid =
        [(''1'', [(0, 8), (1, 0)]), (''2'', [(0, 4), (1, 0)]), (''3'', [(0, 0), (1, 0)])],
      weekStart = 0,
      restaurantShare = 0\<rparr>"


subsection \<open>Notions used in the proofs about \<open>approxFraction\<close>\<close>



section \<open>Properties\<close>

subsection \<open>Shared lemmas\<close>

lemma foldl_add_sum_list:
  fixes a :: rat
  shows "foldl (\<lambda>s x. s + f x) a xs = a + sum_list (map f xs)"
  by (induction xs arbitrary: a) (simp_all add: add.assoc)

lemma those_map_list_all2:
  "those (map f xs) = Some ys \<longleftrightarrow> list_all2 (\<lambda>x y. f x = Some y) xs ys"
proof (induction xs arbitrary: ys)
  case Nil
  then show ?case by auto
next
  case (Cons x xs)
  then show ?case
    by (cases ys) (auto split: option.splits)
qed

lemma those_map_total:
  assumes "\<And>x. x \<in> set xs \<Longrightarrow> \<exists>y. f x = Some y"
  shows "\<exists>ys. those (map f xs) = Some ys"
  using assms
proof (induction xs)
  case Nil
  then show ?case by simp
next
  case (Cons x xs)
  then obtain y ys where "f x = Some y" "those (map f xs) = Some ys"
    by (meson list.set_intros)
  then show ?case by simp
qed

lemma employeeRow_Some:
  "\<exists>r. employeeRow tp sh tv e = Some r \<and> emp r = e
     \<and> rawPropPoints r = (if tp > 0 then points e / tp else 0)
     \<and> scaledProp r = rawPropPoints r * (1 - sh)
     \<and> weeklyRaw r = scaledProp r * tv
     \<and> weeklyRounded r = of_int (Math_round (weeklyRaw r / 5)) * 5"
  by (simp add: employeeRow_def js_divide_def Let_def)

lemma employeeRow_fields:
  assumes "employeeRow tp sh tv e = Some r"
  shows "emp r = e"
    and "rawPropPoints r = (if tp > 0 then points e / tp else 0)"
    and "scaledProp r = rawPropPoints r * (1 - sh)"
    and "weeklyRaw r = scaledProp r * tv"
    and "weeklyRounded r = of_int (Math_round (weeklyRaw r / 5)) * 5"
  using assms employeeRow_Some [of tp sh tv e] by auto

lemma employeeRows_total: "\<exists>rows. employeeRows st = Some rows"
  unfolding employeeRows_def
  by (rule those_map_total) (use employeeRow_Some in blast)

lemma list_all2_mem_right:
  assumes "list_all2 P xs ys" and "y \<in> set ys"
  shows "\<exists>x\<in>set xs. P x y"
  using assms by (induction rule: list_all2_induct) auto

lemma employeeRows_mem:
  assumes "employeeRows st = Some rows" and "r \<in> set rows"
  shows "\<exists>e\<in>set (totalsWithPoints st).
           employeeRow (totalEmployeePoints st) (restaurantShare st) (totalTipsValue st) e = Some r"
proof -
  from assms(1) have "list_all2
      (\<lambda>e r. employeeRow (totalEmployeePoints st) (restaurantShare st) (totalTipsValue st) e = Some r)
      (totalsWithPoints st) rows"
    by (simp add: employeeRows_def those_map_list_all2)
  from list_all2_mem_right [OF this assms(2)] show ?thesis .
qed

lemma getMultiplier_pos: "0 < getMultiplier t"
  by (simp add: getMultiplier_def Let_def)

lemma totalsWithPoints_points:
  assumes "e \<in> set (totalsWithPoints st)"
  shows "\<exists>t\<in>set (employeeTotals st). total e = total t \<and> points e = total t * getMultiplier (t_type t)"
  using assms by (auto simp: totalsWithPoints_def Let_def)

lemma weeklyRaw_mono:
  fixes tp sh tv pa pb :: rat
  assumes "0 \<le> tv" and "sh < 1" and "pb < pa"
  shows "(if 0 < tp then pb / tp else 0) * (1 - sh) * tv \<le> (if 0 < tp then pa / tp else 0) * (1 - sh) * tv"
proof (cases "0 < tp")
  case True
  with assms(3) have "pb / tp \<le> pa / tp"
    by (simp add: divide_right_mono)
  moreover from assms(2) have "0 \<le> 1 - sh"
    by simp
  ultimately have "pb / tp * (1 - sh) \<le> pa / tp * (1 - sh)"
    by (rule mult_right_mono)
  from this assms(1) have "pb / tp * (1 - sh) * tv \<le> pa / tp * (1 - sh) * tv"
    by (rule mult_right_mono)
  with True show ?thesis by (simp only: if_True)
next
  case False
  then show ?thesis by simp
qed

lemma Math_round_zero: "Math_round 0 = 0"
  by (simp add: Math_round_def floor_eq_iff)

lemma round_half_away_nonneg:
  "0 \<le> x \<Longrightarrow> round_half_away_from_zero x = Math_round x"
  by (simp add: round_half_away_from_zero_def Math_round_def)


subsection \<open>Conservation\<close>

text \<open>
  C1. For every state, the table has the employees' rows followed by one row of the
  restaurant, whose rounded amount is the pool minus the sum of the employees' rounded
  amounts; so the rounded amounts of all rows add up to the pool exactly.
\<close>

theorem conservation:
  "\<exists>erows house. employeeRows st = Some erows \<and> finalRows st = Some (erows @ [house])
     \<and> t_id (emp house) = ''restaurant''
     \<and> weeklyRounded house = totalTipsValue st - sum_list (map weeklyRounded erows)
     \<and> sum_list (map weeklyRounded (erows @ [house])) = totalTipsValue st"
proof -
  obtain erows where e: "employeeRows st = Some erows"
    using employeeRows_total by blast
  let ?house = "restaurantRow (restaurantShare st) (totalTipsValue st)
                  (totalTipsValue st - foldl (\<lambda>s r. s + weeklyRounded r) 0 erows)"
  have f: "finalRows st = Some (erows @ [?house])"
    by (simp add: finalRows_def e Let_def)
  have w: "weeklyRounded ?house = totalTipsValue st - sum_list (map weeklyRounded erows)"
    by (simp add: restaurantRow_def foldl_add_sum_list)
  have i: "t_id (emp ?house) = ''restaurant''"
    by (simp add: restaurantRow_def)
  have "sum_list (map weeklyRounded (erows @ [?house])) = totalTipsValue st"
    using w by simp
  with e f w i show ?thesis by blast
qed


subsection \<open>The worked scenario\<close>

text \<open>
  C7. With a pool of 500, no restaurant share and two waiters of 40 and 30 hours, the
  points are 32 and 24, 56 in total; the raw proportions are 4/7 and 3/7; the amounts
  rounded to 5 are 285 and 215, and the restaurant's row gets 500 - 500 = 0.
\<close>

theorem scenario_rows:
  "map total (employeeTotals scenario) = [40, 30]
   \<and> map mult (totalsWithPoints scenario) = [8 / 10, 8 / 10]
   \<and> map points (totalsWithPoints scenario) = [32, 24]
   \<and> totalEmployeePoints scenario = 56
   \<and> map_option (map rawPropPoints) (finalRows scenario) = Some [4 / 7, 3 / 7, 0]
   \<and> map_option (map weeklyRaw) (finalRows scenario) = Some [2000 / 7, 1500 / 7, 0]
   \<and> map_option (map weeklyRounded) (finalRows scenario) = Some [285, 215, 0]"
  by code_simp

subsection \<open>Proportionality\<close>

text \<open>
  C9. When the pool is not negative and the restaurant share lies in [0, 1), an
  employee with strictly more points than another has a raw amount (the scaled
  proportion times the pool, before rounding) at least as large.
\<close>

theorem proportionality_monotone:
  assumes "0 \<le> totalTipsValue st" and "0 \<le> restaurantShare st" and "restaurantShare st < 1"
  shows "\<exists>rows. employeeRows st = Some rows
           \<and> (\<forall>a\<in>set rows. \<forall>b\<in>set rows.
                 points (emp b) < points (emp a) \<longrightarrow> weeklyRaw b \<le> weeklyRaw a)"
proof -
  obtain rows where rows: "employeeRows st = Some rows"
    using employeeRows_total by blast
  have "weeklyRaw b \<le> weeklyRaw a"
    if "a \<in> set rows" and "b \<in> set rows" and lt: "points (emp b) < points (emp a)" for a b
  proof -
    from employeeRows_mem [OF rows that(1)] obtain ea where
      a: "employeeRow (totalEmployeePoints st) (restaurantShare st) (totalTipsValue st) ea = Some a"
      by blast
    from employeeRows_mem [OF rows that(2)] obtain eb where
      b: "employeeRow (totalEmployeePoints st) (restaurantShare st) (totalTipsValue st) eb = Some b"
      by blast
    note fa = employeeRow_fields [OF a] and fb = employeeRow_fields [OF b]
    from lt have "points eb < points ea"
      by (simp add: fa(1) fb(1))
    from weeklyRaw_mono [OF assms(1) assms(3) this, of "totalEmployeePoints st"]
    show ?thesis
      by (simp only: fa(2,3,4) fb(2,3,4))
  qed
  with rows show ?thesis by blast
qed

theorem proportionality_monotone_witness:
  "0 \<le> totalTipsValue scenario \<and> 0 \<le> restaurantShare scenario \<and> restaurantShare scenario < 1
   \<and> (\<exists>rows. employeeRows scenario = Some rows
         \<and> points (emp (rows ! 1)) < points (emp (rows ! 0))
         \<and> weeklyRaw (rows ! 1) \<le> weeklyRaw (rows ! 0))"
proof -
  have h: "0 \<le> totalTipsValue scenario" "0 \<le> restaurantShare scenario"
    "restaurantShare scenario < 1"
    by code_simp+
  from proportionality_monotone [OF h] obtain rows where
    r: "employeeRows scenario = Some rows" and
    m: "\<forall>a\<in>set rows. \<forall>b\<in>set rows. points (emp b) < points (emp a) \<longrightarrow> weeklyRaw b \<le> weeklyRaw a"
    by blast
  have "map_option (map (\<lambda>r. points (emp r))) (employeeRows scenario) = Some [32, 24]"
    by code_simp
  with r have v: "map (\<lambda>r. points (emp r)) rows = [32, 24]"
    by simp
  then have "length rows = 2"
    by (metis length_map length_Cons list.size(3) numeral_2_eq_2)
  then have s: "rows ! 0 \<in> set rows" "rows ! 1 \<in> set rows"
    by simp_all
  from v \<open>length rows = 2\<close> have p: "points (emp (rows ! 0)) = 32" "points (emp (rows ! 1)) = 24"
    by (metis nth_map nth_Cons_0 zero_less_numeral,
        metis nth_map nth_Cons_0 nth_Cons_Suc One_nat_def one_less_numeral_iff semiring_norm(76))
  then have lt: "points (emp (rows ! 1)) < points (emp (rows ! 0))"
    by simp
  with m s have "weeklyRaw (rows ! 1) \<le> weeklyRaw (rows ! 0)"
    by blast
  with h r lt show ?thesis by blast
qed

subsection \<open>Rounding\<close>

text \<open>
  C2. For a valid input (pool not negative, restaurant share in [0, 1), no negative
  weekly total), the rounded amount of every employee row is its raw amount divided
  by 5, rounded half away from zero, times 5.
\<close>

theorem rounding_rule:
  assumes "0 \<le> totalTipsValue st" and "0 \<le> restaurantShare st" and "restaurantShare st < 1"
    and "\<forall>t\<in>set (employeeTotals st). 0 \<le> total t"
  shows "\<exists>rows. employeeRows st = Some rows
           \<and> (\<forall>r\<in>set rows.
                 weeklyRounded r = of_int (round_half_away_from_zero (weeklyRaw r / 5)) * 5)"
proof -
  obtain rows where rows: "employeeRows st = Some rows"
    using employeeRows_total by blast
  have "weeklyRounded r = of_int (round_half_away_from_zero (weeklyRaw r / 5)) * 5"
    if "r \<in> set rows" for r
  proof -
    from employeeRows_mem [OF rows that] obtain e where
      e: "e \<in> set (totalsWithPoints st)" and
      r: "employeeRow (totalEmployeePoints st) (restaurantShare st) (totalTipsValue st) e = Some r"
      by blast
    note f = employeeRow_fields [OF r]
    from totalsWithPoints_points [OF e] assms(4) getMultiplier_pos have p: "0 \<le> points e"
      by (auto simp: less_imp_le)
    then have "0 \<le> rawPropPoints r"
      by (simp add: f(2))
    with assms(3) have "0 \<le> scaledProp r"
      by (simp add: f(3))
    with assms(1) have "0 \<le> weeklyRaw r"
      by (simp add: f(4))
    then have "round_half_away_from_zero (weeklyRaw r / 5) = Math_round (weeklyRaw r / 5)"
      by (simp add: round_half_away_nonneg)
    with f(5) show ?thesis by simp
  qed
  with rows show ?thesis by blast
qed

theorem rounding_rule_witness:
  "map total (employeeTotals tie_state) = [8]
   \<and> map_option (map weeklyRaw) (employeeRows tie_state) = Some [5 / 2]
   \<and> map_option (map weeklyRounded) (employeeRows tie_state) = Some [5]
   \<and> (\<exists>rows. employeeRows tie_state = Some rows
         \<and> list_all (\<lambda>r. weeklyRounded r = of_int (round_half_away_from_zero (weeklyRaw r / 5)) * 5) rows)"
proof -
  have h: "0 \<le> totalTipsValue tie_state" "0 \<le> restaurantShare tie_state"
    "restaurantShare tie_state < 1"
    by code_simp+
  have t: "map total (employeeTotals tie_state) = [8]"
    by code_simp
  have "list_all (\<lambda>t. 0 \<le> total t) (employeeTotals tie_state)"
    by code_simp
  then have n: "\<forall>t\<in>set (employeeTotals tie_state). 0 \<le> total t"
    by (simp add: list_all_iff)
  have a: "map_option (map weeklyRaw) (employeeRows tie_state) = Some [5 / 2]"
    by code_simp
  have b: "map_option (map weeklyRounded) (employeeRows tie_state) = Some [5]"
    by code_simp
  from rounding_rule [OF h n] t a b show ?thesis
    by (simp add: list_all_iff)
qed

subsection \<open>Degenerate inputs\<close>



subsection \<open>The restaurant share\<close>

text \<open>
  C4, as stated, fails: a percentage of 150 gives the share 3/2, above 0.99, and the
  table is computed with it.
\<close>

theorem house_share_above_099:
  "restaurantShare (onChangeRestaurantShare (NumberText 150) scenario) = 3 / 2
   \<and> \<not> restaurantShare (onChangeRestaurantShare (NumberText 150) scenario) \<le> 99 / 100
   \<and> map_option (map scaledProp) (finalRows (onChangeRestaurantShare (NumberText 150) scenario))
       = Some [- (2 / 7), - (3 / 14), 3 / 2]"
  by code_simp

text \<open>
  C4, amended. For every number \<open>v\<close> entered as the percentage, the share becomes
  \<open>max 0 v / 100\<close>: a negative value is raised to 0 and there is no upper bound. An
  empty entry leaves the share as it was. The table uses the share of the state
  unchanged: it is the proportion of the restaurant's row.
\<close>

theorem house_share_lower_clamp:
  "restaurantShare (onChangeRestaurantShare (NumberText v) st) = max 0 v / 100
   \<and> 0 \<le> restaurantShare (onChangeRestaurantShare (NumberText v) st)
   \<and> v / 100 \<le> restaurantShare (onChangeRestaurantShare (NumberText v) st)
   \<and> onChangeRestaurantShare EmptyText st = st
   \<and> (\<exists>rows. finalRows (onChangeRestaurantShare (NumberText v) st) = Some rows
         \<and> scaledProp (last rows) = max 0 v / 100)"
proof -
  let ?st = "onChangeRestaurantShare (NumberText v) st"
  have s: "restaurantShare ?st = max 0 v / 100"
    by (simp add: onChangeRestaurantShare_def parseFloat_def)
  have e: "onChangeRestaurantShare EmptyText st = st"
    by (simp add: onChangeRestaurantShare_def parseFloat_def)
  obtain erows where "employeeRows ?st = Some erows"
    using employeeRows_total by blast
  then have "\<exists>rows. finalRows ?st = Some rows \<and> scaledProp (last rows) = restaurantShare ?st"
    by (simp add: finalRows_def Let_def restaurantRow_def)
  then have f: "\<exists>rows. finalRows ?st = Some rows \<and> scaledProp (last rows) = max 0 v / 100"
    by (simp only: s)
  have n: "0 \<le> restaurantShare ?st"
    unfolding s by simp
  have u: "v / 100 \<le> restaurantShare ?st"
    unfolding s by (simp add: divide_right_mono)
  from s n u e f show ?thesis
    by (intro conjI)
qed

subsection \<open>Weekly totals\<close>

text \<open>
  C6. The live table sums, for each employee, the hours of the seven days of the
  selected week, a missing day counting 0. \<open>calculateTips\<close> sums every value stored
  for the employee instead: with 8 hours entered on day 0 and the week then moved to
  days 7 to 13, the weekly total is 0 but \<open>calculateTips\<close> sends 8 hours.
\<close>

theorem calculateTips_sums_other_weeks:
  "map total (employeeTotals st)
     = map (\<lambda>e. \<Sum>d\<leftarrow>getWeekDates (weekStart st). hoursAt (hoursGrid st) (emp_id e) d) (employees st)
   \<and> getWeekDates (weekStart other_week_state) = [7, 8, 9, 10, 11, 12, 13]
   \<and> map_of (hoursGrid other_week_state) ''1''
       = Some [(0, 8), (1, 0), (2, 0), (3, 0), (4, 0), (5, 0), (6, 0),
               (7, 0), (8, 0), (9, 0), (10, 0), (11, 0), (12, 0), (13, 0)]
   \<and> map total (employeeTotals other_week_state) = [0]
   \<and> map totalHours (employeesWithTotals other_week_state) = [8]
   \<and> calculateTips other_week_state
       = Inr \<lparr>total_tips = Some 100,
               req_employees = [\<lparr>p_name = ''A'', p_hours = 8, p_role = None\<rparr>]\<rparr>"
proof -
  have "map total (employeeTotals st)
     = map (\<lambda>e. \<Sum>d\<leftarrow>getWeekDates (weekStart st). hoursAt (hoursGrid st) (emp_id e) d) (employees st)"
    by (simp add: employeeTotals_def foldl_add_sum_list comp_def)
  moreover have "getWeekDates (weekStart other_week_state) = [7, 8, 9, 10, 11, 12, 13]"
    by code_simp
  moreover have "map_of (hoursGrid other_week_state) ''1''
       = Some [(0, 8), (1, 0), (2, 0), (3, 0), (4, 0), (5, 0), (6, 0),
               (7, 0), (8, 0), (9, 0), (10, 0), (11, 0), (12, 0), (13, 0)]"
    by code_simp
  moreover have "map total (employeeTotals other_week_state) = [0]"
    by code_simp
  moreover have "map totalHours (employeesWithTotals other_week_state) = [8]"
    by code_simp
  moreover have "calculateTips other_week_state
       = Inr \<lparr>total_tips = Some 100,
               req_employees = [\<lparr>p_name = ''A'', p_hours = 8, p_role = None\<rparr>]\<rparr>"
    by code_simp
  ultimately show ?thesis
    by (intro conjI)
qed

subsection \<open>Exclusion of employees\<close>

text \<open>
  C5, as stated, fails: the live table does not filter. The second employee of
  \<open>mixed_state\<close> has no name and is dropped by \<open>calculateTips\<close>, but in the live table
  it is the row \<open>Unnamed\<close>, its points are a third of the total and it gets 35 of 100.
\<close>

theorem unnamed_employee_shares:
  "map emp_name (employees mixed_state) = [''A'', '''', ''B'']
   \<and> map w_name (validEmployees mixed_state) = [''A'']
   \<and> map t_name (totalsWithPoints mixed_state) = [''A'', ''Unnamed'', ''B'']
   \<and> map points (totalsWithPoints mixed_state) = [32 / 5, 16 / 5, 0]
   \<and> totalEmployeePoints mixed_state = 48 / 5
   \<and> map_option (map weeklyRounded) (employeeRows mixed_state) = Some [65, 35, 0]"
  by code_simp

text \<open>
  C5, amended. \<open>calculateTips\<close> sends only employees with a name and positive summed
  hours. The live table keeps one row for every employee; an employee whose weekly
  total is 0 has 0 points, adds nothing to the total of the points, and gets the raw
  and the rounded amount 0.
\<close>

theorem zero_hours_excluded:
  "(\<forall>e\<in>set (validEmployees st). w_name e \<noteq> [] \<and> 0 < totalHours e)
   \<and> (\<forall>req. calculateTips st = Inr req \<longrightarrow>
         (\<forall>p\<in>set (req_employees req). p_name p \<noteq> [] \<and> 0 < p_hours p))
   \<and> totalEmployeePoints st
       = sum_list (map points (filter (\<lambda>e. total e \<noteq> 0) (totalsWithPoints st)))
   \<and> (\<exists>rows. employeeRows st = Some rows \<and> length rows = length (employees st)
         \<and> (\<forall>r\<in>set rows. total (emp r) = 0 \<longrightarrow>
               points (emp r) = 0 \<and> rawPropPoints r = 0 \<and> weeklyRaw r = 0
               \<and> weeklyRounded r = 0))"
proof -
  have a: "\<forall>e\<in>set (validEmployees st). w_name e \<noteq> [] \<and> 0 < totalHours e"
    by (simp add: validEmployees_def)
  have b: "\<forall>req. calculateTips st = Inr req \<longrightarrow>
         (\<forall>p\<in>set (req_employees req). p_name p \<noteq> [] \<and> 0 < p_hours p)"
    using a by (auto simp: calculateTips_def split: if_splits)
  have z: "points e = 0" if "e \<in> set (totalsWithPoints st)" and "total e = 0" for e
    using totalsWithPoints_points [OF that(1)] that(2) by auto
  have "sum_list (map points xs) = sum_list (map points (filter (\<lambda>e. total e \<noteq> 0) xs))"
    if "\<And>e. e \<in> set xs \<Longrightarrow> total e = 0 \<Longrightarrow> points e = 0" for xs :: "emp_points list"
    using that by (induction xs) auto
  from this [of "totalsWithPoints st"] z
  have c: "totalEmployeePoints st
       = sum_list (map points (filter (\<lambda>e. total e \<noteq> 0) (totalsWithPoints st)))"
    by (simp add: totalEmployeePoints_def foldl_add_sum_list)
  obtain rows where rows: "employeeRows st = Some rows"
    using employeeRows_total by blast
  then have "list_all2
      (\<lambda>e r. employeeRow (totalEmployeePoints st) (restaurantShare st) (totalTipsValue st) e = Some r)
      (totalsWithPoints st) rows"
    by (simp add: employeeRows_def those_map_list_all2)
  then have "length rows = length (totalsWithPoints st)"
    by (simp add: list_all2_lengthD)
  then have l: "length rows = length (employees st)"
    by (simp add: totalsWithPoints_def employeeTotals_def)
  have d: "points (emp r) = 0 \<and> rawPropPoints r = 0 \<and> weeklyRaw r = 0 \<and> weeklyRounded r = 0"
    if "r \<in> set rows" and "total (emp r) = 0" for r
  proof -
    from employeeRows_mem [OF rows that(1)] obtain e where
      e: "e \<in> set (totalsWithPoints st)" and
      r: "employeeRow (totalEmployeePoints st) (restaurantShare st) (totalTipsValue st) e = Some r"
      by blast
    note f = employeeRow_fields [OF r]
    from z [OF e] that(2) have p: "points e = 0"
      by (simp add: f(1))
    then have "rawPropPoints r = 0"
      by (simp add: f(2))
    then have "weeklyRaw r = 0"
      by (simp add: f(3,4))
    then have "weeklyRounded r = 0"
      by (simp add: f(5) Math_round_zero)
    with p \<open>rawPropPoints r = 0\<close> \<open>weeklyRaw r = 0\<close> show ?thesis
      by (simp add: f(1))
  qed
  from rows l d have "\<exists>rows. employeeRows st = Some rows \<and> length rows = length (employees st)
         \<and> (\<forall>r\<in>set rows. total (emp r) = 0 \<longrightarrow>
               points (emp r) = 0 \<and> rawPropPoints r = 0 \<and> weeklyRaw r = 0
               \<and> weeklyRounded r = 0)"
    by blast
  with a b c show ?thesis
    by (intro conjI)
qed

theorem zero_hours_excluded_witness:
  "map (\<lambda>e. (w_name e, totalHours e)) (employeesWithTotals mixed_state)
     = [(''A'', 8), ('''', 4), (''B'', 0)]
   \<and> calculateTips mixed_state
       = Inr \<lparr>total_tips = Some 100,
               req_employees = [\<lparr>p_name = ''A'', p_hours = 8, p_role = Some ''waiter''\<rparr>]\<rparr>
   \<and> map total (totalsWithPoints mixed_state) = [8, 4, 0]
   \<and> (\<exists>rows. employeeRows mixed_state = Some rows \<and> length rows = 3
         \<and> total (emp (rows ! 2)) = 0 \<and> weeklyRounded (rows ! 2) = 0)"
proof -
  have a: "map (\<lambda>e. (w_name e, totalHours e)) (employeesWithTotals mixed_state)
     = [(''A'', 8), ('''', 4), (''B'', 0)]"
    by code_simp
  have b: "calculateTips mixed_state
       = Inr \<lparr>total_tips = Some 100,
               req_employees = [\<lparr>p_name = ''A'', p_hours = 8, p_role = Some ''waiter''\<rparr>]\<rparr>"
    by code_simp
  have c: "map total (totalsWithPoints mixed_state) = [8, 4, 0]"
    by code_simp
  have n: "length (employees mixed_state) = 3"
    by code_simp
  have t: "map_option (map (\<lambda>r. total (emp r))) (employeeRows mixed_state) = Some [8, 4, 0]"
    by code_simp
  from zero_hours_excluded [of mixed_state] obtain rows where
    r: "employeeRows mixed_state = Some rows" and
    l: "length rows = length (employees mixed_state)" and
    z: "\<forall>r\<in>set rows. total (emp r) = 0 \<longrightarrow> weeklyRounded r = 0"
    by blast
  from r t have m: "map (\<lambda>r. total (emp r)) rows = [8, 4, 0]"
    by simp
  from l n have l3: "length rows = 3"
    by simp
  then have "map (\<lambda>r. total (emp r)) rows ! 2 = total (emp (rows ! 2))"
    by simp
  with m have t2: "total (emp (rows ! 2)) = 0"
    by simp
  from l3 have "rows ! 2 \<in> set rows"
    by simp
  with z t2 have "weeklyRounded (rows ! 2) = 0"
    by blast
  with a b c r l3 t2 show ?thesis
    by blast
qed

subsection \<open>Validation\<close>



subsection \<open>The fraction shown for a proportion\<close>












end
